theory Spec2Isabelle
  imports Complex_Main
begin

section \<open>Data model\<close>

text \<open>
  The notebooks work on xarray \<open>DataArray\<close> objects: a NumPy array of values together with
  dimension names, a dictionary of coordinates, a dictionary of attributes and a name.
  A NumPy array is a shape and its elements in row-major order. The element type is left
  open (\<open>'a\<close>): nothing below computes with the numbers themselves, so the results hold for
  whatever the floating-point values are. The field \<open>data_values\<close> is xarray's \<open>values\<close>.
\<close>

record 'a ndarray =
  shape :: "nat list"
  elems :: "'a list"

text \<open>
  A coordinate of a grid is either the scalar \<open>metpy_crs\<close> object that MetPy's \<open>parse_cf()\<close>
  attaches (CF projection metadata, type \<open>'cf\<close>) or a one-dimensional axis.
\<close>

datatype ('a, 'cf) coord = Crs 'cf | Axis "'a list"

record ('a, 'cf) dataarray =
  data_values :: "'a ndarray"
  dims :: "string list"
  coords :: "string \<rightharpoonup> ('a, 'cf) coord"
  attrs :: "string \<rightharpoonup> string"
  name :: "string option"

text \<open>
  Python passes objects by reference and \<open>uer.values = ut\<close> is an assignment into an object,
  so grids live in a store and are named by their address. The store only grows: \<open>copy()\<close>
  allocates at the end.
\<close>

type_synonym addr = nat
type_synonym ('a, 'cf) store = "('a, 'cf) dataarray list"

text \<open>
  The only \<open>raise\<close> written in the notebooks is the \<open>ValueError\<close> of
  \<open>earth_relative_wind_components\<close>. Indexing a Python list outside its range raises
  \<open>IndexError\<close>. Every other exception leaves a library call (xarray, MetPy, NumPy, cartopy,
  Siphon, python-awips) and is carried with its text.
\<close>

datatype error = ValueError string | IndexError | LibraryError string

text \<open>
  The libraries the function calls are parameters: MetPy's conversion of the CF metadata to
  a cartopy coordinate reference system (it raises for a projection it does not handle),
  cartopy's \<open>PlateCarree()\<close> and its \<open>transform_vectors(src_proj, x, y, u, v)\<close>, a method
  of the target system.
\<close>

record ('a, 'cf, 'crs) libraries =
  to_cartopy :: "'cf \<Rightarrow> string + 'crs"
  PlateCarree :: "'crs"
  transform_vectors :: "'crs \<Rightarrow> 'crs \<Rightarrow> 'a ndarray \<Rightarrow> 'a ndarray \<Rightarrow> 'a ndarray \<Rightarrow> 'a ndarray
    \<Rightarrow> string + ('a ndarray \<times> 'a ndarray)"

section \<open>Library operations the function uses\<close>

definition no_crs_message :: string where
  "no_crs_message = ''No CRS in coordinate, be sure to usethe MetPy accessor parse_cf()''"

text \<open>\<open>k in da.coords\<close>\<close>

definition in_coords :: "string \<Rightarrow> ('a, 'cf) dataarray \<Rightarrow> bool" where
  "in_coords k da = (coords da k \<noteq> None)"

text \<open>
  \<open>da.metpy.cartopy_crs\<close>: the accessor reads the object stored under \<open>metpy_crs\<close> and
  converts it (\<open>to_cartopy()\<close>).
\<close>

definition cartopy_crs :: "('a, 'cf, 'crs) libraries \<Rightarrow> ('a, 'cf) dataarray \<Rightarrow> error + 'crs" where
  "cartopy_crs lib da =
     (case coords da ''metpy_crs'' of
        None \<Rightarrow> Inl (LibraryError ''crs attribute is not available'')
      | Some (Axis _) \<Rightarrow> Inl (LibraryError ''metpy_crs is not a projection object'')
      | Some (Crs cf) \<Rightarrow>
          (case to_cartopy lib cf of Inl m \<Rightarrow> Inl (LibraryError m) | Inr c \<Rightarrow> Inr c))"

text \<open>
  \<open>da.x.values\<close>, \<open>da.y.values\<close>: the values of the coordinate of that name (grids read
  with \<open>parse_cf()\<close> carry their \<open>x\<close> and \<open>y\<close> as coordinates).
\<close>

definition coord_values :: "('a, 'cf) dataarray \<Rightarrow> string \<Rightarrow> error + 'a list" where
  "coord_values da k =
     (case coords da k of
        None \<Rightarrow> Inl (LibraryError (''DataArray object has no attribute '' @ k))
      | Some (Crs _) \<Rightarrow> Inl (LibraryError (k @ '' is not an axis''))
      | Some (Axis xs) \<Rightarrow> Inr xs)"

text \<open>
  \<open>np.meshgrid(x, y)\<close> with the default \<open>indexing='xy'\<close>: two arrays of shape
  \<open>(len(y), len(x))\<close>; row \<open>i\<close> of the first is \<open>x\<close>, row \<open>i\<close> of the second repeats \<open>y[i]\<close>.
\<close>

definition meshgrid :: "'a list \<Rightarrow> 'a list \<Rightarrow> 'a ndarray \<times> 'a ndarray" where
  "meshgrid x y =
     (\<lparr>shape = [length y, length x], elems = concat (replicate (length y) x)\<rparr>,
      \<lparr>shape = [length y, length x], elems = concat (map (replicate (length x)) y)\<rparr>)"

text \<open>
  cartopy documents \<open>transform_vectors\<close> as taking four arrays of one shape, of one or
  two dimensions, and returning the transformed components of each vector at its own
  position. \<open>pointwise_vectors rule\<close> is that behaviour around a rule for one vector:
  \<open>rule target source x y u v\<close> gives the components in \<open>target\<close> of the vector \<open>(u, v)\<close>
  at \<open>(x, y)\<close> in \<open>source\<close>.
\<close>

definition pointwise_vectors ::
  "('crs \<Rightarrow> 'crs \<Rightarrow> 'a \<Rightarrow> 'a \<Rightarrow> 'a \<Rightarrow> 'a \<Rightarrow> 'a \<times> 'a) \<Rightarrow> 'crs \<Rightarrow> 'crs
     \<Rightarrow> 'a ndarray \<Rightarrow> 'a ndarray \<Rightarrow> 'a ndarray \<Rightarrow> 'a ndarray \<Rightarrow> string + ('a ndarray \<times> 'a ndarray)" where
  "pointwise_vectors rule target source x y u v =
     (if \<not> (shape x = shape y \<and> shape y = shape u \<and> shape u = shape v)
      then Inl ''x, y, u and v arrays must be the same shape''
      else if length (shape x) \<noteq> 1 \<and> length (shape x) \<noteq> 2
      then Inl ''x, y, u and v must be 1 or 2 dimensional''
      else
        let r = map (\<lambda>(px, py, pu, pv). rule target source px py pu pv)
                  (zip (elems x) (zip (elems y) (zip (elems u) (elems v))))
        in Inr (\<lparr>shape = shape u, elems = map fst r\<rparr>, \<lparr>shape = shape u, elems = map snd r\<rparr>))"


text \<open>\<open>da.copy()\<close>: a new object with the same content (the default copy is deep).\<close>

definition copy_da :: "addr \<Rightarrow> ('a, 'cf) store \<Rightarrow> addr \<times> ('a, 'cf) store" where
  "copy_da a s = (length s, s @ [s ! a])"

text \<open>
  \<open>da.values = arr\<close>: xarray replaces the array of the object and refuses an array of
  another shape.
\<close>

definition set_values :: "addr \<Rightarrow> 'a ndarray \<Rightarrow> ('a, 'cf) store \<Rightarrow> error + ('a, 'cf) store" where
  "set_values a arr s =
     (if shape arr \<noteq> shape (data_values (s ! a))
      then Inl (LibraryError ''replacement data must match the Variable's shape'')
      else Inr (s[a := (s ! a)\<lparr>data_values := arr\<rparr>]))"

section \<open>The function\<close>

definition earth_relative_wind_components ::
  "('a, 'cf, 'crs) libraries \<Rightarrow> addr \<Rightarrow> addr \<Rightarrow> ('a, 'cf) store
     \<Rightarrow> (error + addr \<times> addr) \<times> ('a, 'cf) store" where
  "earth_relative_wind_components lib ugrd vgrd s =
     (if \<not> in_coords ''metpy_crs'' (s ! ugrd) then (Inl (ValueError no_crs_message), s)
      else
        case cartopy_crs lib (s ! ugrd) of Inl e \<Rightarrow> (Inl e, s) | Inr data_crs \<Rightarrow>
       (case coord_values (s ! ugrd) ''x'' of Inl e \<Rightarrow> (Inl e, s) | Inr x \<Rightarrow>
       (case coord_values (s ! ugrd) ''y'' of Inl e \<Rightarrow> (Inl e, s) | Inr y \<Rightarrow>
       (case meshgrid x y of (xx, yy) \<Rightarrow>
       (case transform_vectors lib (PlateCarree lib) data_crs xx yy
               (data_values (s ! ugrd)) (data_values (s ! vgrd)) of
          Inl m \<Rightarrow> (Inl (LibraryError m), s)
        | Inr (ut, vt) \<Rightarrow>
       (case copy_da ugrd s of (uer, s1) \<Rightarrow>
       (case copy_da vgrd s1 of (ver, s2) \<Rightarrow>
       (case set_values uer ut s2 of Inl e \<Rightarrow> (Inl e, s2) | Inr s3 \<Rightarrow>
       (case set_values ver vt s3 of Inl e \<Rightarrow> (Inl e, s3) | Inr s4 \<Rightarrow>
          (Inr (uer, ver), s4))))))))))"

section \<open>Notebooks as scripts\<close>

text \<open>
  A notebook runs its statements top to bottom against the outside world (servers,
  network), of type \<open>'w\<close>. A library call that reaches the outside takes the world and
  gives it back changed, together with its value or the text of the exception it raised.
  The trace is bookkeeping added by the model: one entry for every library call made, in
  order, with the name of the call and the exception text when it raised. No notebook has
  a \<open>try\<close> statement, so an exception ends the run: \<open>next_do\<close> runs what follows a
  statement only when the statement returned.
\<close>

type_synonym trace = "(string \<times> string option) list"
type_synonym ('w, 'r) script = "'w \<times> trace \<Rightarrow> (error + 'r) \<times> 'w \<times> trace"

definition lib_call :: "string \<Rightarrow> ('w \<Rightarrow> (string + 'r) \<times> 'w) \<Rightarrow> ('w, 'r) script" where
  "lib_call label f =
     (\<lambda>(w, tr). case f w of
         (Inl m, w') \<Rightarrow> (Inl (LibraryError m), w', tr @ [(label, Some m)])
       | (Inr r, w') \<Rightarrow> (Inr r, w', tr @ [(label, None)]))"

text \<open>A library call that stays on this machine.\<close>

definition local_call :: "string \<Rightarrow> string + 'r \<Rightarrow> ('w, 'r) script" where
  "local_call label r = lib_call label (\<lambda>w. (r, w))"

text \<open>A library call that changes something outside and cannot raise.\<close>

definition outside_effect :: "('w \<Rightarrow> 'w) \<Rightarrow> ('w, unit) script" where
  "outside_effect f = (\<lambda>(w, tr). (Inr (), f w, tr))"

text \<open>Reading something outside (the clock).\<close>

definition read_outside :: "('w \<Rightarrow> 'x) \<Rightarrow> ('w, 'x) script" where
  "read_outside f = (\<lambda>(w, tr). (Inr (f w), w, tr))"

definition return_value :: "'r \<Rightarrow> ('w, 'r) script" where
  "return_value r = (\<lambda>st. (Inr r, st))"

definition raise_error :: "error \<Rightarrow> ('w, 'r) script" where
  "raise_error e = (\<lambda>st. (Inl e, st))"

definition next_do :: "('w, 'a) script \<Rightarrow> ('a \<Rightarrow> ('w, 'b) script) \<Rightarrow> ('w, 'b) script" where
  "next_do m k = (\<lambda>st. case m st of (Inl e, st') \<Rightarrow> (Inl e, st') | (Inr a, st') \<Rightarrow> k a st')"

text \<open>\<open>xs[-1]\<close> and \<open>xs[0]\<close> on a Python list.\<close>

definition last_item :: "'x list \<Rightarrow> ('w, 'x) script" where
  "last_item xs = (if xs = [] then raise_error IndexError else return_value (last xs))"

definition first_item :: "'x list \<Rightarrow> ('w, 'x) script" where
  "first_item xs = (case xs of [] \<Rightarrow> raise_error IndexError | x # _ \<Rightarrow> return_value x)"

text \<open>
  What "no retry, no recovery, no translation" says of a finished run, given the calls the
  script contains in the order written (\<open>sites\<close>): a call that raised is the last call
  made, and the run ended with exactly what that call raised; the calls made are an
  initial part of \<open>sites\<close>, each made once, and all of \<open>sites\<close> when the run returned.
\<close>

fun ends_with_failure :: "error + 'r \<Rightarrow> trace \<Rightarrow> bool" where
  "ends_with_failure r [] = True"
| "ends_with_failure r ((label, None) # tr) = ends_with_failure r tr"
| "ends_with_failure r ((label, Some m) # tr) = (tr = [] \<and> r = Inl (LibraryError m))"

definition one_shot :: "string list \<Rightarrow> (error + 'r) \<times> 'w \<times> trace \<Rightarrow> bool" where
  "one_shot sites out =
     (case out of (r, w, tr) \<Rightarrow>
        ends_with_failure r tr \<and>
        (if isl r then map fst tr = take (length tr) sites else map fst tr = sites))"

text \<open>
  The same for a part of a script, started in any world with any trace: it only adds to
  the trace.
\<close>

definition runs_once :: "string list \<Rightarrow> ('w, 'r) script \<Rightarrow> bool" where
  "runs_once sites m =
     (\<forall>w tr0. \<exists>tr. snd (snd (m (w, tr0))) = tr0 @ tr \<and>
        ends_with_failure (fst (m (w, tr0))) tr \<and>
        (if isl (fst (m (w, tr0))) then map fst tr = take (length tr) sites
         else map fst tr = sites))"

subsection \<open>The lightning notebook\<close>

text \<open>
  The request object of python-awips and the four \<open>DataAccessLayer\<close> calls the notebook
  makes; each of the four asks the EDEX server. Times, geometry data and points are the
  library's objects. What the cells print or plot is not modelled; the lists of sources
  and parameters are fetched only to be printed.
\<close>

record request =
  data_type :: string
  identifiers :: "string \<rightharpoonup> string"
  parameters :: "string list"

record ('w, 't, 'g, 'p) data_access_layer =
  changeEDEXHost :: "string \<Rightarrow> 'w \<Rightarrow> 'w"
  getIdentifierValues :: "request \<Rightarrow> string \<Rightarrow> 'w \<Rightarrow> (string + string list) \<times> 'w"
  getAvailableParameters :: "request \<Rightarrow> 'w \<Rightarrow> (string + string list) \<times> 'w"
  getAvailableTimes :: "request \<Rightarrow> 'w \<Rightarrow> (string + 't list) \<times> 'w"
  getGeometryData :: "request \<Rightarrow> 't list \<Rightarrow> 'w \<Rightarrow> (string + 'g list) \<times> 'w"
  getGeometry :: "'g \<Rightarrow> 'p"

definition newDataRequest :: "string \<Rightarrow> request" where
  "newDataRequest dt = \<lparr>data_type = dt, identifiers = Map.empty, parameters = []\<rparr>"

definition addIdentifier :: "string \<Rightarrow> string \<Rightarrow> request \<Rightarrow> request" where
  "addIdentifier k v r = r\<lparr>identifiers := (identifiers r)(k \<mapsto> v)\<rparr>"

definition setParameters :: "string list \<Rightarrow> request \<Rightarrow> request" where
  "setParameters ps r = r\<lparr>parameters := ps\<rparr>"

record ('g, 'p) glm_result =
  glm_points :: "'p list"
  ob :: "'g"

definition edexServer :: string where
  "edexServer = ''edex-cloud.unidata.ucar.edu''"

definition glm_script :: "('w, 't, 'g, 'p) data_access_layer \<Rightarrow> ('w, ('g, 'p) glm_result) script" where
  "glm_script dal =
     next_do (outside_effect (changeEDEXHost dal edexServer))
       (\<lambda>_.
     let request = newDataRequest ''binlightning'' in
     next_do (lib_call ''getIdentifierValues'' (getIdentifierValues dal request ''source''))
       (\<lambda>sources.
     next_do (lib_call ''getAvailableParameters'' (getAvailableParameters dal request))
       (\<lambda>availableParms.
     let request = setParameters [''intensity''] (addIdentifier ''source'' ''GLMgr'' request) in
     next_do (lib_call ''getAvailableTimes'' (getAvailableTimes dal request))
       (\<lambda>times.
     next_do (last_item times)
       (\<lambda>t.
     next_do (lib_call ''getGeometryData'' (getGeometryData dal request [t]))
       (\<lambda>response.
     next_do (first_item response)
       (\<lambda>first.
     return_value \<lparr>glm_points = map (getGeometry dal) response, ob = first\<rparr>)))))))"

definition glm_sites :: "string list" where
  "glm_sites =
     [''getIdentifierValues'', ''getAvailableParameters'', ''getAvailableTimes'',
      ''getGeometryData'']"

subsection \<open>The vorticity-advection notebook\<close>

text \<open>
  The data-acquisition cell. Siphon's \<open>TDSCatalog(url)\<close> fetches the catalog,
  \<open>dataset.subset()\<close> opens the subset service of a dataset and \<open>ncss.get_data(query)\<close>
  fetches the data; these three ask the THREDDS server. The rest is xarray and MetPy on
  this machine. Catalog, service client, response and dataset are the libraries' objects
  (\<open>'o\<close>). The date is the constant \<open>datetime(2016, 4, 16, 18)\<close>, so the formatted strings
  are constants.

  \<^item> \<open>datasets_item cat n\<close> is \<open>cat.datasets[n]\<close>;
  \<^item> \<open>open_dataset_parse_cf data\<close> is
    \<open>xr.open_dataset(NetCDF4DataStore(data)).metpy.parse_cf()\<close>;
  \<^item> \<open>metpy_time ds n\<close> is the valid time read from \<open>ds[n].metpy.time\<close>;
  \<^item> \<open>sel_vertical ds n p\<close> is \<open>ds[n].metpy.sel(vertical=p * units.hPa).squeeze()\<close>.
\<close>

record query =
  time :: "string option"
  accept :: "string option"
  variables :: "string list"

record ('w, 'o, 'a, 'cf) thredds =
  TDSCatalog :: "string \<Rightarrow> 'w \<Rightarrow> (string + 'o) \<times> 'w"
  datasets_item :: "'o \<Rightarrow> string \<Rightarrow> string + 'o"
  subset_service :: "'o \<Rightarrow> 'w \<Rightarrow> (string + 'o) \<times> 'w"
  get_data :: "'o \<Rightarrow> query \<Rightarrow> 'w \<Rightarrow> (string + 'o) \<times> 'w"
  open_dataset_parse_cf :: "'o \<Rightarrow> string + 'o"
  assign_latitude_longitude :: "'o \<Rightarrow> string + 'o"
  metpy_time :: "'o \<Rightarrow> string \<Rightarrow> string + string"
  sel_vertical :: "'o \<Rightarrow> string \<Rightarrow> nat \<Rightarrow> string + ('a, 'cf) dataarray"
  smooth_gaussian :: "('a, 'cf) dataarray \<Rightarrow> nat \<Rightarrow> string + ('a, 'cf) dataarray"

record ('a, 'cf) acquired =
  vtime :: string
  hght_500 :: "('a, 'cf) dataarray"
  uwnd_500 :: "('a, 'cf) dataarray"
  vwnd_500 :: "('a, 'cf) dataarray"
  uwnd_500er :: "('a, 'cf) dataarray"
  vwnd_500er :: "('a, 'cf) dataarray"

definition base_url :: string where
  "base_url = ''https://www.ncei.noaa.gov/thredds/catalog/model-namanl-old/''"

definition new_query :: query where
  "new_query = \<lparr>time = None, accept = None, variables = []\<rparr>"

text \<open>
  The call of \<open>earth_relative_wind_components\<close> from a script: the two grids are the
  objects at addresses 0 and 1, and what the function raises ends the script.
\<close>

definition call_earth_relative ::
  "('a, 'cf, 'crs) libraries \<Rightarrow> ('a, 'cf) dataarray \<Rightarrow> ('a, 'cf) dataarray
     \<Rightarrow> ('w, ('a, 'cf) dataarray \<times> ('a, 'cf) dataarray) script" where
  "call_earth_relative lib u v =
     (case earth_relative_wind_components lib 0 1 [u, v] of
        (Inl e, s) \<Rightarrow> raise_error e
      | (Inr (uer, ver), s) \<Rightarrow> return_value (s ! uer, s ! ver))"

definition acquisition_script ::
  "('w, 'o, 'a, 'cf) thredds \<Rightarrow> ('a, 'cf, 'crs) libraries \<Rightarrow> ('w, ('a, 'cf) acquired) script" where
  "acquisition_script tds lib =
     next_do (lib_call ''TDSCatalog'' (TDSCatalog tds (base_url @ ''201604/20160416/catalog.xml'')))
       (\<lambda>cat.
     next_do (local_call ''datasets[]'' (datasets_item tds cat ''namanl_218_20160416_1800_000.grb''))
       (\<lambda>dataset.
     next_do (lib_call ''subset'' (subset_service tds dataset))
       (\<lambda>ncss.
     let query = new_query\<lparr>time := Some ''2016-04-16T18:00:00''\<rparr>;
         query = query\<lparr>accept := Some ''netcdf''\<rparr>;
         query = query\<lparr>variables := [''Geopotential_height_isobaric'',
                    ''u-component_of_wind_isobaric'', ''v-component_of_wind_isobaric'']\<rparr> in
     next_do (lib_call ''get_data'' (get_data tds ncss query))
       (\<lambda>data.
     next_do (local_call ''open_dataset'' (open_dataset_parse_cf tds data))
       (\<lambda>ds_data.
     next_do (local_call ''assign_latitude_longitude'' (assign_latitude_longitude tds ds_data))
       (\<lambda>ds.
     next_do (local_call ''metpy.time'' (metpy_time tds ds ''Geopotential_height_isobaric''))
       (\<lambda>vt.
     next_do (local_call ''metpy.sel'' (sel_vertical tds ds ''Geopotential_height_isobaric'' 500))
       (\<lambda>hght.
     next_do (local_call ''smooth_gaussian'' (smooth_gaussian tds hght 4))
       (\<lambda>hght.
     next_do (local_call ''metpy.sel'' (sel_vertical tds ds ''u-component_of_wind_isobaric'' 500))
       (\<lambda>uwnd.
     next_do (local_call ''metpy.sel'' (sel_vertical tds ds ''v-component_of_wind_isobaric'' 500))
       (\<lambda>vwnd.
     next_do (call_earth_relative lib uwnd vwnd)
       (\<lambda>(uer, ver).
     return_value
       \<lparr>vtime = vt, hght_500 = hght, uwnd_500 = uwnd, vwnd_500 = vwnd,
        uwnd_500er = uer, vwnd_500er = ver\<rparr>))))))))))))"

definition acquisition_sites :: "string list" where
  "acquisition_sites =
     [''TDSCatalog'', ''datasets[]'', ''subset'', ''get_data'', ''open_dataset'',
      ''assign_latitude_longitude'', ''metpy.time'', ''metpy.sel'', ''smooth_gaussian'',
      ''metpy.sel'', ''metpy.sel'']"

subsection \<open>The dynamic-tropopause notebook\<close>

text \<open>
  \<open>xr.open_dataset(url)\<close> opens the analysis of yesterday (the date comes from the clock)
  on the THREDDS server; the calculations are MetPy and xarray calls on this machine.
  Datasets, data arrays and quantities with units are the libraries' objects (\<open>'o\<close>);
  \<open>.values\<close> gives the NumPy array of a data array. The numbers are of a type with a
  multiplication and numerals, for \<open>pvor.values*1e6\<close> and the level \<open>2\<close>.

  \<^item> \<open>open_dataset_url url\<close> is \<open>xr.open_dataset(url).metpy.parse_cf()\<close>;
  \<^item> \<open>sel_lat_lon ds (a, b) (c, d)\<close> is \<open>ds.sel(lat=slice(a, b), lon=slice(c, d))\<close>;
  \<^item> \<open>first_time ds\<close> is \<open>ds.time.values[0]\<close> as a Python datetime;
  \<^item> \<open>variable ds n\<close> is \<open>ds[n]\<close> (or \<open>ds.n\<close>);
  \<^item> \<open>sel_vertical_slice v p q\<close> is
    \<open>v.metpy.sel(vertical=slice(p * units.hPa, q * units.hPa))\<close>;
  \<^item> \<open>mean_axis v k\<close> is \<open>v.mean(axis=k)\<close>, \<open>subtract a b\<close> is \<open>a - b\<close>;
  \<^item> \<open>interpolate_to_isosurface level_var interp_var level bottom_up_search\<close> is MetPy's
    function of that name;
  \<^item> \<open>to_knots a\<close> is \<open>(a * units('m/s')).to(units.knots)\<close>.
\<close>

record ('w, 'o, 'a) tropopause_libraries =
  yesterday :: "'w \<Rightarrow> string"
  open_dataset_url :: "string \<Rightarrow> 'w \<Rightarrow> (string + 'o) \<times> 'w"
  sel_lat_lon :: "'o \<Rightarrow> int \<times> int \<Rightarrow> int \<times> int \<Rightarrow> string + 'o"
  first_time :: "'o \<Rightarrow> string + string"
  variable :: "'o \<Rightarrow> string \<Rightarrow> string + 'o"
  squeeze :: "'o \<Rightarrow> string + 'o"
  sel_vertical_slice :: "'o \<Rightarrow> nat \<Rightarrow> nat \<Rightarrow> string + 'o"
  smooth_n_point :: "'o \<Rightarrow> nat \<Rightarrow> nat \<Rightarrow> string + 'o"
  mean_axis :: "'o \<Rightarrow> nat \<Rightarrow> string + 'o"
  potential_temperature :: "'o \<Rightarrow> 'o \<Rightarrow> string + 'o"
  coriolis_parameter :: "'o \<Rightarrow> string + 'o"
  subtract :: "'o \<Rightarrow> 'o \<Rightarrow> string + 'o"
  potential_vorticity_baroclinic :: "'o \<Rightarrow> 'o \<Rightarrow> 'o \<Rightarrow> 'o \<Rightarrow> string + 'o"
  values_of :: "'o \<Rightarrow> 'a ndarray"
  interpolate_to_isosurface :: "'a ndarray \<Rightarrow> 'a ndarray \<Rightarrow> 'a \<Rightarrow> bool \<Rightarrow> string + 'a ndarray"
  to_knots :: "'a ndarray \<Rightarrow> string + 'o"

text \<open>\<open>array * c\<close>: every element times \<open>c\<close>.\<close>

definition times_scalar :: "'a::times ndarray \<Rightarrow> 'a \<Rightarrow> 'a ndarray" where
  "times_scalar a c = a\<lparr>elems := map (\<lambda>p. p * c) (elems a)\<rparr>"

record ('o, 'a) tropopause =
  DT_potemp :: "'a ndarray"
  DT_uwnd :: "'o"
  DT_vwnd :: "'o"

text \<open>The three interpolations that end the calculation cell.\<close>

definition dynamic_tropopause ::
  "('w, 'o, 'a::{times,numeral}) tropopause_libraries \<Rightarrow> 'o \<Rightarrow> 'o \<Rightarrow> 'o \<Rightarrow> 'o
     \<Rightarrow> ('w, ('o, 'a) tropopause) script" where
  "dynamic_tropopause env pvor potemp uwind vwind =
     next_do (local_call ''interpolate_to_isosurface''
        (interpolate_to_isosurface env (times_scalar (values_of env pvor) 1000000)
           (values_of env potemp) 2 False))
       (\<lambda>dt_potemp.
     next_do (local_call ''interpolate_to_isosurface''
        (interpolate_to_isosurface env (times_scalar (values_of env pvor) 1000000)
           (values_of env uwind) 2 False))
       (\<lambda>u.
     next_do (local_call ''to(knots)'' (to_knots env u))
       (\<lambda>dt_uwnd.
     next_do (local_call ''interpolate_to_isosurface''
        (interpolate_to_isosurface env (times_scalar (values_of env pvor) 1000000)
           (values_of env vwind) 2 False))
       (\<lambda>v.
     next_do (local_call ''to(knots)'' (to_knots env v))
       (\<lambda>dt_vwnd.
     return_value \<lparr>DT_potemp = dt_potemp, DT_uwnd = dt_uwnd, DT_vwnd = dt_vwnd\<rparr>)))))"

text \<open>\<open>smooth_n_point(ds[name].squeeze(), 9, 2)\<close>\<close>

definition smoothed_variable ::
  "('w, 'o, 'a) tropopause_libraries \<Rightarrow> 'o \<Rightarrow> string \<Rightarrow> ('w, 'o) script" where
  "smoothed_variable env ds var_name =
     next_do (local_call ''ds[]'' (variable env ds var_name))
       (\<lambda>var.
     next_do (local_call ''squeeze'' (squeeze env var))
       (\<lambda>var.
     local_call ''smooth_n_point'' (smooth_n_point env var 9 2)))"

definition tropopause_script ::
  "('w, 'o, 'a::{times,numeral}) tropopause_libraries \<Rightarrow> ('w, ('o, 'a) tropopause) script" where
  "tropopause_script env =
     next_do (read_outside (yesterday env))
       (\<lambda>date.
     next_do (lib_call ''open_dataset''
        (open_dataset_url env
           (''https://thredds.ucar.edu/thredds/dodsC/grib/NCEP/GFS/'' @
            ''Global_onedeg_ana/GFS_Global_onedeg_ana_'' @ date @ ''_1200.grib2'')))
       (\<lambda>ds.
     next_do (local_call ''sel'' (sel_lat_lon env ds (80, - 10) (360 - 140, 360 - 40)))
       (\<lambda>ds.
     next_do (local_call ''time'' (first_time env ds))
       (\<lambda>valid.
     next_do (local_call ''ds[]'' (variable env ds ''isobaric''))
       (\<lambda>pressure.
     next_do (smoothed_variable env ds ''u-component_of_wind_isobaric'')
       (\<lambda>uwind.
     next_do (smoothed_variable env ds ''v-component_of_wind_isobaric'')
       (\<lambda>vwind.
     next_do (local_call ''ds[]'' (variable env ds ''Absolute_vorticity_isobaric''))
       (\<lambda>avor.
     next_do (local_call ''metpy.sel'' (sel_vertical_slice env avor 850 925))
       (\<lambda>avor.
     next_do (local_call ''squeeze'' (squeeze env avor))
       (\<lambda>avor.
     next_do (local_call ''smooth_n_point'' (smooth_n_point env avor 9 2))
       (\<lambda>LL_avor.
     next_do (local_call ''mean'' (mean_axis env LL_avor 0))
       (\<lambda>avg_LL_avor.
     next_do (local_call ''ds[]'' (variable env ds ''Temperature_isobaric''))
       (\<lambda>temperature.
     next_do (local_call ''squeeze'' (squeeze env temperature))
       (\<lambda>temperature.
     next_do (local_call ''potential_temperature''
                (potential_temperature env pressure temperature))
       (\<lambda>theta.
     next_do (local_call ''smooth_n_point'' (smooth_n_point env theta 9 2))
       (\<lambda>potemp.
     next_do (local_call ''ds[]'' (variable env ds ''lat''))
       (\<lambda>lat.
     next_do (local_call ''coriolis_parameter'' (coriolis_parameter env lat))
       (\<lambda>f.
     next_do (local_call ''subtract'' (subtract env avg_LL_avor f))
       (\<lambda>avg_LL_rvor.
     next_do (local_call ''potential_vorticity_baroclinic''
                (potential_vorticity_baroclinic env potemp pressure uwind vwind))
       (\<lambda>pvor.
     dynamic_tropopause env pvor potemp uwind vwind))))))))))))))))))))"

definition tropopause_sites :: "string list" where
  "tropopause_sites =
     [''open_dataset'', ''sel'', ''time'', ''ds[]'',
      ''ds[]'', ''squeeze'', ''smooth_n_point'',
      ''ds[]'', ''squeeze'', ''smooth_n_point'',
      ''ds[]'', ''metpy.sel'', ''squeeze'', ''smooth_n_point'', ''mean'',
      ''ds[]'', ''squeeze'', ''potential_temperature'', ''smooth_n_point'',
      ''ds[]'', ''coriolis_parameter'', ''subtract'',
      ''potential_vorticity_baroclinic'',
      ''interpolate_to_isosurface'', ''interpolate_to_isosurface'', ''to(knots)'',
      ''interpolate_to_isosurface'', ''to(knots)'']"

section \<open>Sample data\<close>

subsection \<open>A small grid to run the function on\<close>

text \<open>
  A 2 by 3 grid with axes \<open>x = [0, 10, 20]\<close>, \<open>y = [0, 5]\<close>; projections are numbered, and
  the sample library rotates every vector a quarter turn whatever the position.
\<close>

definition quarter_turn :: "nat \<Rightarrow> nat \<Rightarrow> real \<Rightarrow> real \<Rightarrow> real \<Rightarrow> real \<Rightarrow> real \<times> real" where
  "quarter_turn target source x y u v = (- v, u)"

definition sample_lib :: "(real, nat, nat) libraries" where
  "sample_lib =
     \<lparr>to_cartopy = Inr, PlateCarree = 0, transform_vectors = pointwise_vectors quarter_turn\<rparr>"

definition sample_grid :: "real list \<Rightarrow> (string \<rightharpoonup> (real, nat) coord) \<Rightarrow> (real, nat) dataarray" where
  "sample_grid vs cs =
     \<lparr>data_values = \<lparr>shape = [2, 3], elems = vs\<rparr>, dims = [''y'', ''x''], coords = cs,
      attrs = [''units'' \<mapsto> ''m/s''], name = None\<rparr>"

definition sample_coords :: "string \<rightharpoonup> (real, nat) coord" where
  "sample_coords = [''metpy_crs'' \<mapsto> Crs 7, ''x'' \<mapsto> Axis [0, 10, 20], ''y'' \<mapsto> Axis [0, 5]]"

definition bare_coords :: "string \<rightharpoonup> (real, nat) coord" where
  "bare_coords = [''x'' \<mapsto> Axis [0, 10, 20], ''y'' \<mapsto> Axis [0, 5]]"

definition sample_store :: "(real, nat) store" where
  "sample_store =
     [sample_grid [1, 2, 3, 4, 5, 6] sample_coords, sample_grid [6, 5, 4, 3, 2, 1] sample_coords]"

definition bare_store :: "(real, nat) store" where
  "bare_store =
     [sample_grid [1, 2, 3, 4, 5, 6] bare_coords, sample_grid [6, 5, 4, 3, 2, 1] bare_coords]"


definition shifted_store :: "(real, nat) store" where
  "shifted_store = sample_grid [0, 0, 0, 0, 0, 0] bare_coords # sample_store"

subsection \<open>A server that fails once, and a one-column analysis\<close>

text \<open>
  An EDEX server that counts the requests it has served and fails the third one (it would
  answer a fourth).
\<close>

definition flaky_dal :: "(nat, nat, nat \<times> nat, nat \<times> nat) data_access_layer" where
  "flaky_dal =
     \<lparr>changeEDEXHost = (\<lambda>host w. w),
      getIdentifierValues = (\<lambda>r k w. (Inr [''GLMev'', ''GLMfl'', ''GLMgr''], Suc w)),
      getAvailableParameters = (\<lambda>r w. (Inr [''intensity'', ''height''], Suc w)),
      getAvailableTimes = (\<lambda>r w. (if w = 2 then Inl ''timed out'' else Inr [1, 2, 3], Suc w)),
      getGeometryData = (\<lambda>r ts w. (Inr [(10, 20)], Suc w)),
      getGeometry = (\<lambda>g. g)\<rparr>"



section \<open>Missing coordinate-reference metadata\<close>

text \<open>
  C1. When the u-component grid carries no \<open>metpy_crs\<close> coordinate (in particular when
  neither input does), the call raises the function's \<open>ValueError\<close>, whatever the libraries
  are, and the store is the one it was called in: nothing was computed, copied or assigned.
\<close>

theorem missing_crs_raises:
  "\<not> in_coords ''metpy_crs'' (s ! ugrd) \<Longrightarrow>
     earth_relative_wind_components lib ugrd vgrd s = (Inl (ValueError no_crs_message), s)"
  by (simp add: earth_relative_wind_components_def)

theorem missing_crs_raises_witness:
  "\<not> in_coords ''metpy_crs'' (bare_store ! 0) \<and>
   earth_relative_wind_components sample_lib 0 1 bare_store =
     (Inl (ValueError no_crs_message), bare_store)"
proof -
  have h: "\<not> in_coords ''metpy_crs'' (bare_store ! 0)"
    by (simp add: in_coords_def bare_store_def sample_grid_def bare_coords_def)
  from h missing_crs_raises [OF h] show ?thesis by simp
qed

section \<open>What a call does to the store\<close>

text \<open>
  The two copies and the two assignments, for inputs that exist: the copies go to the two
  next addresses, and an assignment fails when the new array has another shape.
\<close>

lemma copy_then_set:
  assumes "ugrd < length s" "vgrd < length s"
  shows "(case copy_da ugrd s of (uer, s1) \<Rightarrow>
       (case copy_da vgrd s1 of (ver, s2) \<Rightarrow>
       (case set_values uer ut s2 of Inl e \<Rightarrow> (Inl e, s2) | Inr s3 \<Rightarrow>
       (case set_values ver vt s3 of Inl e \<Rightarrow> (Inl e, s3) | Inr s4 \<Rightarrow>
          (Inr (uer, ver), s4))))) =
     (if shape ut \<noteq> shape (data_values (s ! ugrd))
      then (Inl (LibraryError ''replacement data must match the Variable's shape''), s @ [s ! ugrd, s ! vgrd])
      else if shape vt \<noteq> shape (data_values (s ! vgrd))
      then (Inl (LibraryError ''replacement data must match the Variable's shape''),
            s @ [(s ! ugrd)\<lparr>data_values := ut\<rparr>, s ! vgrd])
      else (Inr (length s, Suc (length s)),
            s @ [(s ! ugrd)\<lparr>data_values := ut\<rparr>, (s ! vgrd)\<lparr>data_values := vt\<rparr>]))"
  using assms
  by (simp add: copy_da_def set_values_def nth_append list_update_append)

lemma success_cases:
  assumes ok: "earth_relative_wind_components lib ugrd vgrd s = (Inr (uer, ver), s')"
    and u: "ugrd < length s" and v: "vgrd < length s"
  obtains cf data_crs x y ut vt where
    "coords (s ! ugrd) ''metpy_crs'' = Some (Crs cf)"
    "to_cartopy lib cf = Inr data_crs"
    "coords (s ! ugrd) ''x'' = Some (Axis x)"
    "coords (s ! ugrd) ''y'' = Some (Axis y)"
    "transform_vectors lib (PlateCarree lib) data_crs (fst (meshgrid x y)) (snd (meshgrid x y))
       (data_values (s ! ugrd)) (data_values (s ! vgrd)) = Inr (ut, vt)"
    "shape ut = shape (data_values (s ! ugrd))"
    "shape vt = shape (data_values (s ! vgrd))"
    "uer = length s" "ver = Suc (length s)"
    "s' = s @ [(s ! ugrd)\<lparr>data_values := ut\<rparr>, (s ! vgrd)\<lparr>data_values := vt\<rparr>]"
  using ok unfolding earth_relative_wind_components_def copy_then_set [OF u v]
  by (auto simp: in_coords_def cartopy_crs_def coord_values_def
      split: if_splits sum.splits option.splits coord.splits prod.splits)

lemma old_objects_kept:
  assumes "a < length s"
  shows "snd (earth_relative_wind_components lib ugrd vgrd s) ! a = s ! a"
  using assms unfolding earth_relative_wind_components_def
  by (auto simp: copy_da_def set_values_def nth_append
      split: if_splits sum.splits option.splits coord.splits prod.splits)

text \<open>The sample grids through the sample library.\<close>

lemma sample_run:
  "earth_relative_wind_components sample_lib 0 1 sample_store =
     (Inr (2, 3), sample_store @
        [sample_grid [-6, -5, -4, -3, -2, -1] sample_coords,
         sample_grid [1, 2, 3, 4, 5, 6] sample_coords])"
  by (simp add: earth_relative_wind_components_def sample_lib_def sample_store_def
      sample_grid_def sample_coords_def in_coords_def cartopy_crs_def coord_values_def
      meshgrid_def pointwise_vectors_def quarter_turn_def copy_da_def set_values_def)

lemma sample_store_length: "length sample_store = 2"
  by (simp add: sample_store_def)

lemma sample_addresses: "0 < length sample_store" "1 < length sample_store"
  by (simp_all add: sample_store_length)

section \<open>Shape and axes of the result\<close>

text \<open>
  C2. When the call succeeds, each returned grid has the shape, the dimension names and
  the coordinates of the input grid it was copied from. This holds for any inputs on which
  the call succeeds, so also for two grids of one shape on the same axes.
\<close>

theorem output_shape_and_axes:
  assumes "earth_relative_wind_components lib ugrd vgrd s = (Inr (uer, ver), s')"
    and "ugrd < length s" and "vgrd < length s"
  shows "shape (data_values (s' ! uer)) = shape (data_values (s ! ugrd)) \<and>
         dims (s' ! uer) = dims (s ! ugrd) \<and> coords (s' ! uer) = coords (s ! ugrd) \<and>
         shape (data_values (s' ! ver)) = shape (data_values (s ! vgrd)) \<and>
         dims (s' ! ver) = dims (s ! vgrd) \<and> coords (s' ! ver) = coords (s ! vgrd)"
proof -
  from assms obtain ut vt where
    "shape ut = shape (data_values (s ! ugrd))" "shape vt = shape (data_values (s ! vgrd))"
    "uer = length s" "ver = Suc (length s)"
    "s' = s @ [(s ! ugrd)\<lparr>data_values := ut\<rparr>, (s ! vgrd)\<lparr>data_values := vt\<rparr>]"
    by (rule success_cases)
  then show ?thesis by (simp add: nth_append)
qed

theorem output_shape_and_axes_witness:
  "earth_relative_wind_components sample_lib 0 1 sample_store =
     (Inr (2, 3), sample_store @
        [sample_grid [-6, -5, -4, -3, -2, -1] sample_coords,
         sample_grid [1, 2, 3, 4, 5, 6] sample_coords]) \<and>
   0 < length sample_store \<and> 1 < length sample_store \<and>
   shape (data_values ((sample_store @
        [sample_grid [-6, -5, -4, -3, -2, -1] sample_coords,
         sample_grid [1, 2, 3, 4, 5, 6] sample_coords]) ! 2)) = [2, 3] \<and>
   coords ((sample_store @
        [sample_grid [-6, -5, -4, -3, -2, -1] sample_coords,
         sample_grid [1, 2, 3, 4, 5, 6] sample_coords]) ! 3) = sample_coords"
  using output_shape_and_axes [OF sample_run sample_addresses] sample_run sample_addresses
  by (simp add: sample_store_def sample_grid_def)

section \<open>The inputs are left alone\<close>

text \<open>
  C3. Whatever the call does (return or raise), the two input grids are afterwards what
  they were before: values, dimensions, coordinates, attributes and name.
\<close>

theorem inputs_not_modified:
  assumes "ugrd < length s" and "vgrd < length s"
  shows "snd (earth_relative_wind_components lib ugrd vgrd s) ! ugrd = s ! ugrd \<and>
         snd (earth_relative_wind_components lib ugrd vgrd s) ! vgrd = s ! vgrd"
  using assms by (simp add: old_objects_kept)

theorem inputs_not_modified_witness:
  "0 < length sample_store \<and> 1 < length sample_store \<and>
   snd (earth_relative_wind_components sample_lib 0 1 sample_store) ! 0 = sample_store ! 0 \<and>
   snd (earth_relative_wind_components sample_lib 0 1 sample_store) ! 1 = sample_store ! 1"
  using inputs_not_modified [OF sample_addresses, of sample_lib] sample_addresses
  by simp

section \<open>The result is a copy with new values\<close>

text \<open>
  C10. When the call succeeds, the returned grids are new objects, and putting the input's
  values back into a returned grid gives the input grid: dimensions, coordinates,
  attributes and name are the input's. In particular each returned grid still carries the
  \<open>metpy_crs\<close> coordinate of its input, the projection the values were relative to before
  the rotation.
\<close>

theorem only_values_replaced:
  assumes "earth_relative_wind_components lib ugrd vgrd s = (Inr (uer, ver), s')"
    and "ugrd < length s" and "vgrd < length s"
  shows "(s' ! uer)\<lparr>data_values := data_values (s ! ugrd)\<rparr> = s ! ugrd \<and>
         (s' ! ver)\<lparr>data_values := data_values (s ! vgrd)\<rparr> = s ! vgrd \<and>
         coords (s' ! uer) ''metpy_crs'' = coords (s ! ugrd) ''metpy_crs'' \<and>
         coords (s' ! ver) ''metpy_crs'' = coords (s ! vgrd) ''metpy_crs'' \<and>
         length s \<le> uer \<and> length s \<le> ver \<and> uer \<noteq> ver \<and> uer < length s' \<and> ver < length s'"
proof -
  from assms obtain ut vt where
    "uer = length s" "ver = Suc (length s)"
    "s' = s @ [(s ! ugrd)\<lparr>data_values := ut\<rparr>, (s ! vgrd)\<lparr>data_values := vt\<rparr>]"
    by (rule success_cases)
  then show ?thesis by (simp add: nth_append)
qed

theorem only_values_replaced_witness:
  "earth_relative_wind_components sample_lib 0 1 sample_store =
     (Inr (2, 3), sample_store @
        [sample_grid [-6, -5, -4, -3, -2, -1] sample_coords,
         sample_grid [1, 2, 3, 4, 5, 6] sample_coords]) \<and>
   0 < length sample_store \<and> 1 < length sample_store \<and>
   coords ((sample_store @
        [sample_grid [-6, -5, -4, -3, -2, -1] sample_coords,
         sample_grid [1, 2, 3, 4, 5, 6] sample_coords]) ! 2) ''metpy_crs'' = Some (Crs 7) \<and>
   data_values ((sample_store @
        [sample_grid [-6, -5, -4, -3, -2, -1] sample_coords,
         sample_grid [1, 2, 3, 4, 5, 6] sample_coords]) ! 2) \<noteq> data_values (sample_store ! 0)"
  using only_values_replaced [OF sample_run sample_addresses] sample_run sample_addresses
  by (simp add: sample_store_def sample_grid_def sample_coords_def)

section \<open>Determinism\<close>

text \<open>
  C5. Two calls on identical input grids (the same values, axes and metadata), wherever the
  grids sit in the store and whatever else the store holds, end the same way: both raise
  the same error, or both return, and then the returned grids are identical.
\<close>

theorem deterministic:
  assumes "u1 < length s1" and "v1 < length s1" and "u2 < length s2" and "v2 < length s2"
    and "s1 ! u1 = s2 ! u2" and "s1 ! v1 = s2 ! v2"
  shows "case (earth_relative_wind_components lib u1 v1 s1,
               earth_relative_wind_components lib u2 v2 s2) of
           ((Inl e1, t1), (Inl e2, t2)) \<Rightarrow> e1 = e2
         | ((Inr (a1, b1), t1), (Inr (a2, b2), t2)) \<Rightarrow> t1 ! a1 = t2 ! a2 \<and> t1 ! b1 = t2 ! b2
         | _ \<Rightarrow> False"
  unfolding earth_relative_wind_components_def
    copy_then_set [OF assms(1,2)] copy_then_set [OF assms(3,4)]
  using assms(5,6)
  by (simp add: nth_append split: sum.splits prod.splits)

theorem deterministic_witness:
  "0 < length sample_store \<and> 1 < length sample_store \<and>
   1 < length shifted_store \<and> 2 < length shifted_store \<and>
   sample_store ! 0 = shifted_store ! 1 \<and> sample_store ! 1 = shifted_store ! 2 \<and>
   (case (earth_relative_wind_components sample_lib 0 1 sample_store,
          earth_relative_wind_components sample_lib 1 2 shifted_store) of
      ((Inl e1, t1), (Inl e2, t2)) \<Rightarrow> e1 = e2
    | ((Inr (a1, b1), t1), (Inr (a2, b2), t2)) \<Rightarrow> t1 ! a1 = t2 ! a2 \<and> t1 ! b1 = t2 ! b2
    | _ \<Rightarrow> False)"
proof -
  have h: "0 < length sample_store" "1 < length sample_store"
    "1 < length shifted_store" "2 < length shifted_store"
    "sample_store ! 0 = shifted_store ! 1" "sample_store ! 1 = shifted_store ! 2"
    by (simp_all add: shifted_store_def sample_store_def)
  from deterministic [OF h, of sample_lib] h show ?thesis by simp
qed

section \<open>Only the u-component's metadata is read\<close>



section \<open>The rotation is node by node\<close>









section \<open>One request for each fetch, and failures end the run\<close>

text \<open>Calls that returned do not count against what follows them.\<close>

lemma ends_with_failure_append:
  "\<forall>e\<in>set tr1. snd e = None \<Longrightarrow> ends_with_failure r (tr1 @ tr2) = ends_with_failure r tr2"
  by (induction tr1) auto

lemma ends_with_failure_returned:
  "ends_with_failure (Inr a) tr \<longleftrightarrow> (\<forall>e\<in>set tr. snd e = None)"
  by (induction "Inr a :: error + 'a" tr rule: ends_with_failure.induct) auto

lemma ends_with_failure_raised:
  "ends_with_failure (Inl e :: error + 'a) tr \<Longrightarrow> ends_with_failure (Inl e :: error + 'b) tr"
  by (induction "Inl e :: error + 'a" tr rule: ends_with_failure.induct) auto

lemma runs_once_lib_call: "runs_once [label] (lib_call label f)"
  unfolding runs_once_def
proof (intro allI)
  fix w tr0
  show "\<exists>tr. snd (snd (lib_call label f (w, tr0))) = tr0 @ tr \<and>
        ends_with_failure (fst (lib_call label f (w, tr0))) tr \<and>
        (if isl (fst (lib_call label f (w, tr0))) then map fst tr = take (length tr) [label]
         else map fst tr = [label])"
  proof (cases "f w")
    case (Pair r w')
    then show ?thesis
      by (cases r) (simp_all add: lib_call_def)
  qed
qed

lemma runs_once_local_call: "runs_once [label] (local_call label r)"
  unfolding local_call_def by (rule runs_once_lib_call)

lemma runs_once_return_value: "runs_once [] (return_value v)"
  by (simp add: runs_once_def return_value_def)

lemma runs_once_raise_error: "runs_once [] (raise_error e)"
  by (simp add: runs_once_def raise_error_def)

lemma runs_once_outside_effect: "runs_once [] (outside_effect f)"
  by (simp add: runs_once_def outside_effect_def)

lemma runs_once_read_outside: "runs_once [] (read_outside f)"
  by (simp add: runs_once_def read_outside_def)

lemma runs_once_last_item: "runs_once [] (last_item xs)"
  by (simp add: last_item_def runs_once_return_value runs_once_raise_error)

lemma runs_once_first_item: "runs_once [] (first_item xs)"
  by (cases xs) (simp_all add: first_item_def runs_once_return_value runs_once_raise_error)

lemma runs_once_call_earth_relative: "runs_once [] (call_earth_relative lib u v)"
  by (simp add: call_earth_relative_def runs_once_return_value runs_once_raise_error
      split: prod.splits sum.splits)

lemma runs_once_next_do:
  assumes m: "runs_once ss1 m" and k: "\<And>a. runs_once ss2 (k a)"
  shows "runs_once (ss1 @ ss2) (next_do m k)"
  unfolding runs_once_def
proof (intro allI)
  fix w tr0
  from m obtain tr1 where
    tr1: "snd (snd (m (w, tr0))) = tr0 @ tr1" "ends_with_failure (fst (m (w, tr0))) tr1"
    "if isl (fst (m (w, tr0))) then map fst tr1 = take (length tr1) ss1 else map fst tr1 = ss1"
    unfolding runs_once_def by blast
  obtain r w1 t1 where out: "m (w, tr0) = (r, w1, t1)" by (cases "m (w, tr0)") auto
  let ?P = "\<lambda>tr. snd (snd (next_do m k (w, tr0))) = tr0 @ tr \<and>
        ends_with_failure (fst (next_do m k (w, tr0))) tr \<and>
        (if isl (fst (next_do m k (w, tr0))) then map fst tr = take (length tr) (ss1 @ ss2)
         else map fst tr = ss1 @ ss2)"
  show "\<exists>tr. ?P tr"
  proof (cases r)
    case (Inl e)
    from tr1 out Inl have "map fst tr1 = take (length tr1) ss1" by simp
    then have "length (map fst tr1) = length (take (length tr1) ss1)" by (rule arg_cong)
    then have "length tr1 \<le> length ss1" by simp
    with tr1 out Inl have "?P tr1"
      by (auto simp: next_do_def intro: ends_with_failure_raised)
    then show ?thesis ..
  next
    case (Inr a)
    from k [of a] obtain tr2 where
      tr2: "snd (snd (k a (w1, t1))) = t1 @ tr2" "ends_with_failure (fst (k a (w1, t1))) tr2"
      "if isl (fst (k a (w1, t1))) then map fst tr2 = take (length tr2) ss2 else map fst tr2 = ss2"
      unfolding runs_once_def by blast
    from tr1 out Inr have ok1: "\<forall>e\<in>set tr1. snd e = None" and l1: "map fst tr1 = ss1"
      and t1: "t1 = tr0 @ tr1"
      by (simp_all add: ends_with_failure_returned)
    from l1 have "length (map fst tr1) = length ss1" by (rule arg_cong)
    then have len: "length tr1 = length ss1" by simp
    have "?P (tr1 @ tr2)"
      using tr2 out Inr t1 l1 len by (simp add: next_do_def ends_with_failure_append [OF ok1])
    then show ?thesis ..
  qed
qed

lemma then_lib_call:
  "(\<And>a. runs_once ss (k a)) \<Longrightarrow> runs_once (label # ss) (next_do (lib_call label f) k)"
  using runs_once_next_do [OF runs_once_lib_call, of ss k label f] by simp

lemma then_local_call:
  "(\<And>a. runs_once ss (k a)) \<Longrightarrow> runs_once (label # ss) (next_do (local_call label r) k)"
  using runs_once_next_do [OF runs_once_local_call, of ss k label r] by simp

lemma then_quiet:
  "runs_once [] m \<Longrightarrow> (\<And>a. runs_once ss (k a)) \<Longrightarrow> runs_once ss (next_do m k)"
  using runs_once_next_do [of "[]" m ss k] by simp

lemma runs_once_case_prod:
  "(\<And>a b. runs_once ss (k a b)) \<Longrightarrow> runs_once ss (case p of (a, b) \<Rightarrow> k a b)"
  by (cases p) simp

lemmas quiet_steps =
  runs_once_return_value runs_once_raise_error runs_once_outside_effect runs_once_read_outside
  runs_once_last_item runs_once_first_item runs_once_call_earth_relative

lemma runs_once_one_shot: "runs_once ss m \<Longrightarrow> one_shot ss (m (w, []))"
proof -
  assume "runs_once ss m"
  then obtain tr where
    "snd (snd (m (w, []))) = [] @ tr" "ends_with_failure (fst (m (w, []))) tr"
    "if isl (fst (m (w, []))) then map fst tr = take (length tr) ss else map fst tr = ss"
    unfolding runs_once_def by blast
  then show ?thesis
    by (cases "m (w, [])") (auto simp: one_shot_def split: if_splits)
qed

lemma glm_runs_once: "runs_once glm_sites (glm_script dal)"
  unfolding glm_sites_def glm_script_def Let_def
  by (intro then_lib_call then_local_call then_quiet runs_once_case_prod quiet_steps)

lemma acquisition_runs_once: "runs_once acquisition_sites (acquisition_script tds lib)"
  unfolding acquisition_sites_def acquisition_script_def Let_def
  by (intro then_lib_call then_local_call then_quiet runs_once_case_prod quiet_steps)

lemma dynamic_tropopause_runs_once:
  "runs_once [''interpolate_to_isosurface'', ''interpolate_to_isosurface'', ''to(knots)'',
      ''interpolate_to_isosurface'', ''to(knots)'']
     (dynamic_tropopause env pvor potemp uwind vwind)"
  unfolding dynamic_tropopause_def
  by (intro then_lib_call then_local_call then_quiet runs_once_case_prod quiet_steps)

lemma smoothed_variable_runs_once:
  "runs_once [''ds[]'', ''squeeze'', ''smooth_n_point''] (smoothed_variable env ds n)"
  unfolding smoothed_variable_def
  by (intro then_lib_call then_local_call runs_once_local_call)

lemma then_smoothed_variable:
  "(\<And>a. runs_once ss (k a)) \<Longrightarrow>
     runs_once (''ds[]'' # ''squeeze'' # ''smooth_n_point'' # ss)
       (next_do (smoothed_variable env ds n) k)"
  using runs_once_next_do [OF smoothed_variable_runs_once, of ss k env ds n] by simp

lemma tropopause_runs_once: "runs_once tropopause_sites (tropopause_script env)"
  unfolding tropopause_sites_def tropopause_script_def Let_def
  by (intro then_lib_call then_local_call then_quiet then_smoothed_variable
      dynamic_tropopause_runs_once quiet_steps)

text \<open>
  C8. In the three notebooks (the data-access and calculation cells), every library call is
  made at most once and in the order written, the remote fetches among them, and a run
  that returns has made each of them once; a call that raises is the last call made, and
  the notebook ends with exactly the exception of that call.
\<close>

theorem fetches_are_one_shot:
  "one_shot glm_sites (glm_script dal (w1, [])) \<and>
   one_shot acquisition_sites (acquisition_script tds lib (w2, [])) \<and>
   one_shot tropopause_sites (tropopause_script env (w3, []))"
  by (intro conjI runs_once_one_shot glm_runs_once acquisition_runs_once tropopause_runs_once)

theorem fetches_are_one_shot_witness:
  "one_shot glm_sites (glm_script flaky_dal (0, [])) \<and>
   glm_script flaky_dal (0, []) =
     (Inl (LibraryError ''timed out''), 3,
      [(''getIdentifierValues'', None), (''getAvailableParameters'', None),
       (''getAvailableTimes'', Some ''timed out'')])"
proof -
  have "glm_script flaky_dal (0, []) =
     (Inl (LibraryError ''timed out''), 3,
      [(''getIdentifierValues'', None), (''getAvailableParameters'', None),
       (''getAvailableTimes'', Some ''timed out'')])"
    by (simp add: glm_script_def flaky_dal_def next_do_def lib_call_def outside_effect_def
        Let_def numeral_3_eq_3 numeral_2_eq_2)
  with fetches_are_one_shot [of flaky_dal 0, THEN conjunct1] show ?thesis by simp
qed

section \<open>The dynamic tropopause\<close>







end
